theory Spec2Isabelle
  imports Main
begin

section \<open>JavaScript values and the error types of app/error-types.ts\<close>

text \<open>
  Every error of the tool carries a severity. \<open>errorClass.name\<close> is kept as a
  constructor of \<open>ErrorClass\<close>: \<open>x instanceof InterruptError\<close> is a test on that field,
  \<open>x instanceof iCPSError\<close> holds for every class of the list.
\<close>

datatype Severity = WARN | FATAL

datatype ErrorClass =
    C_iCPSError | C_InterruptError | C_iCloudError | C_iCloudWarning | C_iCloudAuthError
  | C_LibraryError | C_LibraryWarning | C_MFAWarning | C_TokenError | C_SyncError
  | C_SyncWarning | C_ArchiveError | C_ArchiveWarning | C_DaemonAppError

text \<open>
  The part of an axios response the code reads: the status, the headers, and in
  \<open>response.data\<close> the two fields \<open>resendMFA\<close> logs
  (\<open>trustedPhoneNumber.numberWithDialCode\<close> and \<open>trustedDeviceCount\<close>); a missing object
  on the way is \<open>None\<close>.
\<close>

record ResponseData =
  trustedPhoneNumber :: "string option"
  trustedDeviceCount :: "nat option"

record AxiosResponse =
  status :: nat
  headers :: "(string \<times> string) list"
  data :: "ResponseData option"

text \<open>
  Values of type \<open>unknown\<close>. \<open>Error\<close> is an error object that is not an \<open>iCPSError\<close>
  (a plain \<open>Error\<close>, a \<open>TypeError\<close>, an axios error with its optional \<open>response\<close>);
  \<open>iCPSError\<close> holds the fields of the class: name, message, sev, cause, context.
  The context object is an association list in insertion order.
\<close>

datatype js_value =
    JUndefined
  | JNull
  | JBool bool
  | JNum int
  | JStr string
  | JResponse AxiosResponse
  | JObj "(string \<times> js_value) list"
  | JErr js_error
and js_error =
    Error string "AxiosResponse option"
  | iCPSError ErrorClass string Severity "js_error option" "(string \<times> js_value) list"


fun message :: "js_error \<Rightarrow> string" where
  "message (iCPSError c m s cs ctx) = m"
| "message (Error m r) = m"

fun sev :: "js_error \<Rightarrow> Severity option" where
  "sev (iCPSError c m s cs ctx) = Some s"
| "sev (Error m r) = None"

fun cause :: "js_error \<Rightarrow> js_error option" where
  "cause (iCPSError c m s cs ctx) = cs"
| "cause (Error m r) = None"

fun err_context :: "js_error \<Rightarrow> (string \<times> js_value) list" where
  "err_context (iCPSError c m s cs ctx) = ctx"
| "err_context (Error m r) = []"

fun response :: "js_error \<Rightarrow> AxiosResponse option" where
  "response (Error m r) = r"
| "response (iCPSError c m s cs ctx) = None"

fun instanceof_iCPSError :: "js_value \<Rightarrow> bool" where
  "instanceof_iCPSError (JErr (iCPSError c m s cs ctx)) = True"
| "instanceof_iCPSError v = False"

fun instanceof_Error :: "js_value \<Rightarrow> bool" where
  "instanceof_Error (JErr e) = True"
| "instanceof_Error v = False"

fun instanceof_InterruptError :: "js_error \<Rightarrow> bool" where
  "instanceof_InterruptError (iCPSError c m s cs ctx) = (c = C_InterruptError)"
| "instanceof_InterruptError (Error m r) = False"

text \<open>\<open>obj[key] = v\<close> on an object kept as an association list.\<close>

fun set_key :: "string \<Rightarrow> js_value \<Rightarrow> (string \<times> js_value) list \<Rightarrow> (string \<times> js_value) list" where
  "set_key k v [] = [(k, v)]"
| "set_key k v ((k', v') # kvs) = (if k' = k then (k, v) # kvs else (k', v') # set_key k v kvs)"

text \<open>\<open>addCause\<close> and \<open>addContext\<close> are methods of \<open>iCPSError\<close>; they return the object.\<close>

fun addCause :: "js_error \<Rightarrow> js_error \<Rightarrow> js_error" where
  "addCause err (iCPSError c m s cs ctx) = iCPSError c m s (Some err) ctx"
| "addCause err (Error m r) = Error m r"

fun addContext :: "string \<Rightarrow> js_value \<Rightarrow> js_error \<Rightarrow> js_error" where
  "addContext k v (iCPSError c m s cs ctx) = iCPSError c m s cs (set_key k v ctx)"
| "addContext k v (Error m r) = Error m r"

text \<open>The constructors: \<open>new iCPSError(errorClass, message, sev)\<close> and its subclasses.\<close>

definition new_iCPSError :: "ErrorClass \<Rightarrow> string \<Rightarrow> Severity \<Rightarrow> js_error" where
  "new_iCPSError errorClass msg s = iCPSError errorClass msg s None []"

definition InterruptError :: "string \<Rightarrow> js_error" where
  "InterruptError msg = new_iCPSError C_InterruptError (''Operation interrupted: '' @ msg) FATAL"

definition iCloudError :: "string \<Rightarrow> js_error" where
  "iCloudError c = new_iCPSError C_iCloudError c FATAL"

definition iCloudWarning :: "string \<Rightarrow> js_error" where
  "iCloudWarning c = new_iCPSError C_iCloudWarning c WARN"

definition iCloudAuthError :: "string \<Rightarrow> js_error" where
  "iCloudAuthError c = new_iCPSError C_iCloudAuthError c FATAL"

definition LibraryError :: "string \<Rightarrow> js_error" where
  "LibraryError c = new_iCPSError C_LibraryError c FATAL"

definition LibraryWarning :: "string \<Rightarrow> js_error" where
  "LibraryWarning c = new_iCPSError C_LibraryWarning c WARN"

definition MFAWarning :: "string \<Rightarrow> js_error" where
  "MFAWarning c = new_iCPSError C_MFAWarning c WARN"

definition TokenError :: "string \<Rightarrow> js_error" where
  "TokenError c = new_iCPSError C_TokenError c FATAL"

definition SyncError :: "string \<Rightarrow> js_error" where
  "SyncError c = new_iCPSError C_SyncError c FATAL"

definition SyncWarning :: "string \<Rightarrow> js_error" where
  "SyncWarning c = new_iCPSError C_SyncWarning c WARN"

definition ArchiveError :: "string \<Rightarrow> js_error" where
  "ArchiveError c = new_iCPSError C_ArchiveError c FATAL"

definition ArchiveWarning :: "string \<Rightarrow> js_error" where
  "ArchiveWarning c = new_iCPSError C_ArchiveWarning c WARN"

definition DaemonAppError :: "js_error \<Rightarrow> js_error" where
  "DaemonAppError c = addCause c (new_iCPSError C_DaemonAppError ''Scheduled sync failed'' FATAL)"

text \<open>\<open>errorClass.name\<close>, as \<open>getDescription\<close> prints it.\<close>

fun class_name :: "ErrorClass \<Rightarrow> string" where
  "class_name C_iCPSError = ''iCPSError''"
| "class_name C_InterruptError = ''InterruptError''"
| "class_name C_iCloudError = ''iCloudError''"
| "class_name C_iCloudWarning = ''iCloudWarning''"
| "class_name C_iCloudAuthError = ''iCloudAuthError''"
| "class_name C_LibraryError = ''LibraryError''"
| "class_name C_LibraryWarning = ''LibraryWarning''"
| "class_name C_MFAWarning = ''MFAWarning''"
| "class_name C_TokenError = ''TokenError''"
| "class_name C_SyncError = ''SyncError''"
| "class_name C_SyncWarning = ''SyncWarning''"
| "class_name C_ArchiveError = ''ArchiveError''"
| "class_name C_ArchiveWarning = ''ArchiveWarning''"
| "class_name C_DaemonAppError = ''DaemonAppError''"

fun sev_name :: "Severity \<Rightarrow> string" where
  "sev_name WARN = ''WARN''"
| "sev_name FATAL = ''FATAL''"

text \<open>
  \<open>getDescription\<close>: the description of the error followed by its cause chain's; a
  cause that is not an \<open>iCPSError\<close> contributes its message.
\<close>

fun getDescription :: "js_error \<Rightarrow> string" where
  "getDescription (iCPSError c m s None ctx) =
     class_name c @ '' ('' @ sev_name s @ ''): '' @ m"
| "getDescription (iCPSError c m s (Some cs) ctx) =
     class_name c @ '' ('' @ sev_name s @ ''): '' @ m @ '' caused by '' @
       (if instanceof_iCPSError (JErr cs) then getDescription cs else message cs)"
| "getDescription (Error m r) = m"

text \<open>\<open>{...a, ...b}\<close>: the keys of \<open>a\<close> in order, overwritten and extended by those of \<open>b\<close>.\<close>

definition spread :: "(string \<times> js_value) list \<Rightarrow> (string \<times> js_value) list \<Rightarrow> (string \<times> js_value) list" where
  "spread a b = fold (\<lambda>(k, v). set_key k v) b a"

fun getContext :: "js_error \<Rightarrow> (string \<times> js_value) list" where
  "getContext (iCPSError c m s None ctx) = ctx"
| "getContext (iCPSError c m s (Some cs) ctx) =
     (if instanceof_iCPSError (JErr cs) then spread ctx (getContext cs) else ctx)"
| "getContext (Error m r) = []"

text \<open>\<open>static fatalError(err: unknown)\<close>.\<close>

definition fatalError :: "js_value \<Rightarrow> bool" where
  "fatalError err =
     (\<not> (case err of JErr e \<Rightarrow> instanceof_iCPSError err \<and> sev e = Some WARN | _ \<Rightarrow> False))"

text \<open>\<open>static toiCPSError(err: unknown)\<close>.\<close>

definition toiCPSError :: "js_value \<Rightarrow> js_error" where
  "toiCPSError err =
     (case err of
        JErr e \<Rightarrow>
          (if instanceof_iCPSError err then e
           else addCause e (new_iCPSError C_iCPSError ''Unknown error'' FATAL))
      | _ \<Rightarrow> addContext ''unknownErrorObject'' err (new_iCPSError C_iCPSError ''Unknown error'' FATAL))"

section \<open>The error handler (app/event/error-handler.ts)\<close>

text \<open>The events the handler emits: \<open>error\<close> and \<open>warn\<close>, each with the message.\<close>

datatype handler_event = ERROR_EVENT | WARN_EVENT

text \<open>
  What \<open>createReport\<close> is given: the error, the attributes, and the attached files.
  \<open>JSON.stringify(err.getContext())\<close> is kept as the context object itself.
\<close>

record Report =
  report_error :: js_error
  icps_description :: string
  icps_severity :: "Severity option"
  icps_ctx :: "(string \<times> js_value) list"
  icps_uuid :: string
  icps_cause :: "js_error option"
  attachments :: "string list"

text \<open>
  The reporting client holds the reports \<open>sendAsync\<close> has delivered to the backend, oldest
  first. \<open>btClient\<close> is \<open>None\<close> unless \<open>options.enableCrashReporting\<close> was set.
\<close>

record BacktraceClient =
  sent :: "Report list"

record ErrorHandler =
  btClient :: "BacktraceClient option"
  handler_emitted :: "(handler_event \<times> string) list"
  handler_logged :: "(Severity \<times> string) list"

definition logFile :: string where
  "logFile = ''.icloud-photos-sync.log''"

definition new_ErrorHandler :: "bool \<Rightarrow> ErrorHandler" where
  "new_ErrorHandler enableCrashReporting =
     \<lparr>btClient = (if enableCrashReporting then Some \<lparr>sent = []\<rparr> else None),
      handler_emitted = [], handler_logged = []\<rparr>"

text \<open>
  \<open>reportError\<close>; \<open>errorUUID\<close> is the value \<open>randomUUID()\<close> returns in this call.
  The result is the error code and the handler after the call.
\<close>

definition reportError :: "string \<Rightarrow> js_error \<Rightarrow> ErrorHandler \<Rightarrow> string \<times> ErrorHandler" where
  "reportError errorUUID err h =
     (case btClient h of
        None \<Rightarrow> (''No error code! Please enable crash reporting!'', h)
      | Some client \<Rightarrow>
          (let report = \<lparr>report_error = err,
                         icps_description = getDescription err,
                         icps_severity = sev err,
                         icps_ctx = getContext err,
                         icps_uuid = errorUUID,
                         icps_cause = cause err,
                         attachments = [logFile]\<rparr>
           in (errorUUID, h\<lparr>btClient := Some (client\<lparr>sent := sent client @ [report]\<rparr>)\<rparr>)))"

text \<open>\<open>handle(err: unknown)\<close>: convert, report when the error should be, emit and log.\<close>

definition shouldReport :: "js_error \<Rightarrow> bool" where
  "shouldReport err = (sev err = Some FATAL \<and> \<not> instanceof_InterruptError err)"

definition handle :: "string \<Rightarrow> js_value \<Rightarrow> ErrorHandler \<Rightarrow> ErrorHandler" where
  "handle errorUUID err h =
     (let err' = toiCPSError err;
          msg = getDescription err';
          (msg', h') =
            (if shouldReport err'
             then (let (errorId, h1) = reportError errorUUID err' h
                   in (msg @ '' (Error Code: '' @ errorId @ '')'', h1))
             else (msg, h))
      in (case sev err' of
            Some WARN \<Rightarrow>
              h'\<lparr>handler_emitted := handler_emitted h' @ [(WARN_EVENT, msg')],
                 handler_logged := handler_logged h' @ [(WARN, msg')]\<rparr>
          | _ \<Rightarrow>
              h'\<lparr>handler_emitted := handler_emitted h' @ [(ERROR_EVENT, msg')],
                 handler_logged := handler_logged h' @ [(FATAL, msg')]\<rparr>))"

text \<open>The reports the backend has received from this handler.\<close>

definition reports :: "ErrorHandler \<Rightarrow> Report list" where
  "reports h = (case btClient h of None \<Rightarrow> [] | Some client \<Rightarrow> sent client)"


section \<open>The iCloud connection (lib/icloud/icloud.ts)\<close>

text \<open>Template literals print a number in decimal.\<close>

definition digit :: "nat \<Rightarrow> char" where
  "digit n = ''0123456789'' ! (n mod 10)"

function show_nat :: "nat \<Rightarrow> string" where
  "show_nat n = (if n < 10 then [digit n] else show_nat (n div 10) @ [digit (n mod 10)])"
  by pat_completeness auto
termination
  by (relation "measure id") auto

declare show_nat.simps [simp del]

text \<open>
  The events of \<open>ICLOUD.EVENTS\<close> the class emits, and \<open>HANDLER_EVENT\<close>. The constants
  live in lib/icloud/constants.ts; only their identity matters here.
\<close>

datatype event =
    AUTHENTICATION_STARTED | MFA_REQUIRED | TRUSTED | AUTHENTICATED | ACCOUNT_READY | READY
  | ERROR | HANDLER_EVENT

text \<open>
  Modelled from the spec: the MFA intake server (lib/icloud/mfa/mfa-server.ts), a local HTTP
  server bound to a port that is started when MFA is required and stopped by
  \<open>stopServer\<close>. The model keeps its port and whether it is listening.
\<close>

record MFAServer =
  port :: nat
  running :: bool

definition startServer :: "MFAServer \<Rightarrow> MFAServer" where
  "startServer srv = srv\<lparr>running := True\<rparr>"

definition stopServer :: "MFAServer \<Rightarrow> MFAServer" where
  "stopServer srv = srv\<lparr>running := False\<rparr>"

text \<open>
  Modelled from the spec: the MFA method (lib/icloud/mfa/mfa-method.ts) is one of device,
  SMS and voice, the latter two with a phone number id. Its response validators
  (\<open>resendSuccessful\<close>, \<open>enterSuccessful\<close>) and \<open>processResendError\<close> are parameters of the
  functions below.
\<close>

datatype MFAMethod = Device | SMS nat | Voice nat

fun isSMS :: "MFAMethod \<Rightarrow> bool" where
  "isSMS (SMS n) = True"
| "isSMS m = False"

fun isVoice :: "MFAMethod \<Rightarrow> bool" where
  "isVoice (Voice n) = True"
| "isVoice m = False"

fun isDevice :: "MFAMethod \<Rightarrow> bool" where
  "isDevice Device = True"
| "isDevice m = False"

text \<open>
  The object: \<open>auth\<close> is the \<open>iCloudAuth\<close> object (lib/icloud/auth.ts, a parameter type),
  \<open>emitted\<close> lists the calls of \<open>this.emit\<close> the methods make, oldest first, each with
  its arguments. The listeners the constructor registers are not part of the methods.
\<close>

record 'a iCloud =
  auth :: 'a
  mfaServer :: MFAServer
  emitted :: "(event \<times> js_value list) list"

definition emit :: "event \<Rightarrow> js_value list \<Rightarrow> 'a iCloud \<Rightarrow> 'a iCloud" where
  "emit ev args s = s\<lparr>emitted := emitted s @ [(ev, args)]\<rparr>"

text \<open>
  A settled promise of an axios request. With the default \<open>validateStatus\<close> a request
  resolves on a 2XX status and rejects otherwise, with an error that holds the response;
  when no response arrives it rejects with an error that holds none.
\<close>

datatype request_outcome = Resolved AxiosResponse | Rejected js_error

datatype http_reply = Reply AxiosResponse | NoReply

definition axios_request :: "http_reply \<Rightarrow> request_outcome" where
  "axios_request r =
     (case r of
        NoReply \<Rightarrow> Rejected (Error ''Network Error'' None)
      | Reply resp \<Rightarrow>
          (if 200 \<le> status resp \<and> status resp < 300 then Resolved resp
           else Rejected (Error (''Request failed with status code '' @ show_nat (status resp))
                            (Some resp))))"

text \<open>
  \<open>authenticate\<close>. \<open>validateAccountSecrets\<close> and \<open>processAuthSecrets\<close> are methods of
  \<open>iCloudAuth\<close>: the first returns the error it throws, if any; the second returns the
  value it throws or the updated object. \<open>outcome\<close> is how the signin POST settles.
  The result is the error the call rejects with before the request (otherwise the method
  returns \<open>this.ready\<close>) and the object after the call.
\<close>

definition authenticate ::
  "('a \<Rightarrow> js_error option) \<Rightarrow> (AxiosResponse \<Rightarrow> 'a \<Rightarrow> js_value + 'a) \<Rightarrow> request_outcome \<Rightarrow>
   'a iCloud \<Rightarrow> js_error option \<times> 'a iCloud" where
  "authenticate validateAccountSecrets processAuthSecrets outcome s0 =
     (let s = emit AUTHENTICATION_STARTED [] s0 in
      case validateAccountSecrets (auth s) of
        Some thrown \<Rightarrow> (Some thrown, s)
      | None \<Rightarrow>
          (None,
           case outcome of
             Resolved resp \<Rightarrow>
               (if status resp \<noteq> 200
                then emit ERROR
                       [JErr (addContext ''response'' (JResponse resp)
                               (iCloudError (''Unexpected HTTP code: '' @ show_nat (status resp))))] s
                else (case processAuthSecrets resp (auth s) of
                        Inr a \<Rightarrow> emit TRUSTED [] (s\<lparr>auth := a\<rparr>)
                      | Inl err \<Rightarrow> emit ERROR [err] s))
           | Rejected err \<Rightarrow>
               (case response err of
                  None \<Rightarrow>
                    emit ERROR
                      [JErr (addCause err (iCloudError ''No response received during authentication''))] s
                | Some resp \<Rightarrow>
                    (let s1 = (if status resp = 401
                               then emit ERROR
                                      [JErr (addCause err
                                              (iCloudError ''Username/Password does not seem to match''))] s
                               else s);
                         s2 = (if status resp = 403
                               then emit ERROR
                                      [JErr (addCause err
                                              (iCloudError ''Username does not seem to exist''))] s1
                               else s1)
                     in if status resp \<noteq> 409
                        then emit ERROR
                               [JErr (addCause err
                                       (iCloudError (''Unexpected HTTP code: '' @ show_nat (status resp))))] s2
                        else (case processAuthSecrets resp (auth s2) of
                                Inr a \<Rightarrow>
                                  emit MFA_REQUIRED [JNum (int (port (mfaServer s2)))] (s2\<lparr>auth := a\<rparr>)
                              | Inl err' \<Rightarrow> emit ERROR [err'] s2)))))"

text \<open>
  \<open>resendMFA\<close>. \<open>outcome\<close> is how the PUT settles. Reading
  \<open>response.data.trustedPhoneNumber.numberWithDialCode\<close> or
  \<open>response.data.trustedDeviceCount\<close> for the log line throws a \<open>TypeError\<close> inside the
  \<open>try\<close> when an object on the way is missing.
\<close>

definition resend_caught ::
  "(MFAMethod \<Rightarrow> js_error \<Rightarrow> js_error) \<Rightarrow> MFAMethod \<Rightarrow> js_error \<Rightarrow> 'a iCloud \<Rightarrow> 'a iCloud" where
  "resend_caught processResendError method err s =
     emit HANDLER_EVENT
       [JErr (addCause (processResendError method err) (iCloudWarning ''Requesting MFA code failed''))] s"

definition resendMFA ::
  "(MFAMethod \<Rightarrow> AxiosResponse \<Rightarrow> bool) \<Rightarrow> (MFAMethod \<Rightarrow> js_error \<Rightarrow> js_error) \<Rightarrow>
   request_outcome \<Rightarrow> MFAMethod \<Rightarrow> 'a iCloud \<Rightarrow> 'a iCloud" where
  "resendMFA resendSuccessful processResendError outcome method s =
     (case outcome of
        Rejected err \<Rightarrow> resend_caught processResendError method err s
      | Resolved resp \<Rightarrow>
          (if \<not> resendSuccessful method resp
           then emit HANDLER_EVENT
                  [JErr (addContext ''response'' (JResponse resp)
                          (iCloudWarning ''Unable to request new MFA code''))] s
           else if isSMS method \<or> isVoice method
           then (case data resp of
                   None \<Rightarrow>
                     resend_caught processResendError method
                       (Error ''Cannot read properties of undefined (reading 'trustedPhoneNumber')''
                          None) s
                 | Some d \<Rightarrow>
                     (case trustedPhoneNumber d of
                        None \<Rightarrow>
                          resend_caught processResendError method
                            (Error ''Cannot read properties of undefined (reading 'numberWithDialCode')''
                               None) s
                      | Some number \<Rightarrow> s))
           else if isDevice method
           then (case data resp of
                   None \<Rightarrow>
                     resend_caught processResendError method
                       (Error ''Cannot read properties of undefined (reading 'trustedDeviceCount')''
                          None) s
                 | Some d \<Rightarrow> s)
           else s))"

text \<open>
  \<open>submitMFA\<close>. The server is stopped first; \<open>outcome\<close> is how the POST of the code
  settles. Everything thrown inside the \<open>try\<close> is emitted as the cause of an \<open>iCloudError\<close>.
\<close>

definition submit_caught :: "js_error \<Rightarrow> 'a iCloud \<Rightarrow> 'a iCloud" where
  "submit_caught err s =
     emit ERROR [JErr (addCause err (iCloudError ''Received error during MFA validation''))] s"

definition submitMFA ::
  "(MFAMethod \<Rightarrow> AxiosResponse \<Rightarrow> bool) \<Rightarrow> request_outcome \<Rightarrow> MFAMethod \<Rightarrow> string \<Rightarrow>
   'a iCloud \<Rightarrow> 'a iCloud" where
  "submitMFA enterSuccessful outcome method mfa s0 =
     (let s = s0\<lparr>mfaServer := stopServer (mfaServer s0)\<rparr> in
      case outcome of
        Rejected err \<Rightarrow> submit_caught err s
      | Resolved resp \<Rightarrow>
          (if \<not> enterSuccessful method resp
           then submit_caught
                  (addContext ''response'' (JResponse resp)
                    (iCloudError (''Received unexpected response status code ('' @
                       show_nat (status resp) @ '') during MFA validation''))) s
           else emit AUTHENTICATED [] s))"

section \<open>Scrubbing confidential data (ErrorHandler.cleanEnv)\<close>

text \<open>
  The process: its environment and the two argument arrays. An array slot is \<open>None\<close>
  where the array has a hole.
\<close>

record Process =
  env :: "string \<rightharpoonup> string"
  argv :: "string option list"
  execArgv :: "string option list"

text \<open>\<open>Array.prototype.findIndex\<close>: the first index that satisfies the test; \<open>None\<close> is -1.\<close>

fun findIndex :: "('a \<Rightarrow> bool) \<Rightarrow> 'a list \<Rightarrow> nat option" where
  "findIndex p [] = None"
| "findIndex p (x # xs) = (if p x then Some 0 else map_option Suc (findIndex p xs))"

text \<open>\<open>arr[i] = v\<close>: an index past the end extends the array, leaving holes in between.\<close>

definition array_set :: "'a option list \<Rightarrow> nat \<Rightarrow> 'a \<Rightarrow> 'a option list" where
  "array_set arr i v =
     (if i < length arr then arr[i := Some v]
      else arr @ replicate (i - length arr) None @ [Some v])"

record confidentialEntry =
  entry_env :: string
  cli :: "string list"
  replacement :: string

definition confidentialData :: "confidentialEntry list" where
  "confidentialData =
     [\<lparr>entry_env = ''APPLE_ID_USER'', cli = [''-u'', ''--username''],
        replacement = ''<APPLE ID USERNAME>''\<rparr>,
      \<lparr>entry_env = ''APPLE_ID_PWD'', cli = [''-p'', ''--password''],
        replacement = ''<APPLE ID PASSWORD>''\<rparr>,
      \<lparr>entry_env = ''TRUST_TOKEN'', cli = [''-T'', ''--trust-token''],
        replacement = ''<TRUST TOKEN>''\<rparr>]"

text \<open>The environment variable is replaced when it is truthy: set and not empty.\<close>

definition cleanEnvVar :: "confidentialEntry \<Rightarrow> Process \<Rightarrow> Process" where
  "cleanEnvVar e p =
     (case env p (entry_env e) of
        None \<Rightarrow> p
      | Some v \<Rightarrow> if v \<noteq> [] then p\<lparr>env := (env p)(entry_env e \<mapsto> replacement e)\<rparr> else p)"

text \<open>
  One flag of an entry: the index of the flag in \<open>process.argv\<close>, then its index in
  \<open>process.execArgv\<close>; both assignments go to \<open>process.argv\<close>, as in the source.
\<close>

definition cleanCliValue :: "confidentialEntry \<Rightarrow> string \<Rightarrow> Process \<Rightarrow> Process" where
  "cleanCliValue e confidentialCliValue p =
     (let p1 = (case findIndex (\<lambda>v. v = Some confidentialCliValue) (argv p) of
                  None \<Rightarrow> p
                | Some i \<Rightarrow> p\<lparr>argv := array_set (argv p) (i + 1) (replacement e)\<rparr>)
      in case findIndex (\<lambda>v. v = Some confidentialCliValue) (execArgv p1) of
           None \<Rightarrow> p1
         | Some i \<Rightarrow> p1\<lparr>argv := array_set (argv p1) (i + 1) (replacement e)\<rparr>)"

definition cleanEntry :: "confidentialEntry \<Rightarrow> Process \<Rightarrow> Process" where
  "cleanEntry e p = fold (cleanCliValue e) (cli e) (cleanEnvVar e p)"

definition cleanEnv :: "Process \<Rightarrow> Process" where
  "cleanEnv p = fold cleanEntry confidentialData p"

section \<open>The library lock and the token flow (app/icloud-app.ts)\<close>

text \<open>
  The data directory: the content of each file in it, by name. The lock file holds the
  locking process id in decimal.
\<close>

type_synonym directory = "string \<rightharpoonup> string"

definition LIBRARY_LOCK_FILE :: string where
  "LIBRARY_LOCK_FILE = ''.library.lock''"

text \<open>
  Modelled from the spec: \<open>acquireLibraryLock\<close> of app/icloud-app.ts, which is not among the
  sources. "Acquire: if absent, create; if present with pid \<noteq> self, fail with
  LibraryError("Locked by PID N") unless force=true, in which case overwrite." The full
  message is the one the unit test expects. A lock file that already holds this process'
  id is written again. The result is the error thrown, if any, and the directory after
  the call.
\<close>

definition acquireLibraryLock :: "nat \<Rightarrow> bool \<Rightarrow> directory \<Rightarrow> js_error option \<times> directory" where
  "acquireLibraryLock pid force dir =
     (case dir LIBRARY_LOCK_FILE of
        None \<Rightarrow> (None, dir(LIBRARY_LOCK_FILE \<mapsto> show_nat pid))
      | Some lockingProcess \<Rightarrow>
          (if lockingProcess \<noteq> show_nat pid \<and> \<not> force
           then (Some (LibraryError (''Locked by PID '' @ lockingProcess @
                   ''. Use --force (or FORCE env variable) to forcefully remove the lock'')), dir)
           else (None, dir(LIBRARY_LOCK_FILE \<mapsto> show_nat pid))))"

text \<open>
  Modelled from the spec: \<open>releaseLibraryLock\<close> of app/icloud-app.ts, which is not among the
  sources. "Release: read file; if pid \<noteq> self, fail unless force; otherwise unlink.
  Absence of a lock at release time is a separate error kind (NoLock)." The messages are
  the ones the unit tests expect.
\<close>

definition releaseLibraryLock :: "nat \<Rightarrow> bool \<Rightarrow> directory \<Rightarrow> js_error option \<times> directory" where
  "releaseLibraryLock pid force dir =
     (case dir LIBRARY_LOCK_FILE of
        None \<Rightarrow> (Some (LibraryError ''Unable to release library lock, no lock exists''), dir)
      | Some lockingProcess \<Rightarrow>
          (if lockingProcess \<noteq> show_nat pid \<and> \<not> force
           then (Some (LibraryError (''Locked by PID '' @ lockingProcess @
                   '', cannot release. Use --force (or FORCE env variable) to forcefully remove the lock'')),
                 dir)
           else (None, dir(LIBRARY_LOCK_FILE := None))))"

text \<open>
  Modelled from the spec: \<open>TokenApp.run\<close> of app/icloud-app.ts, which is not among the
  sources. The lock is acquired, then the iCloud connection authenticates, the account
  tokens are validated and the token event is emitted; "the lock is always released on all
  exit paths". Of the program the spec says: "The source wraps a lock-acquisition failure
  as ArchiveError("Unable to get trust token") in the token flow", and the unit test
  constructs that error. A failure to authenticate is wrapped under the same message, in
  the class the unit test constructs for it (\<open>iCloudError\<close>).
  The three steps are parameters (the unit tests replace them); each returns the error it
  throws, if any, and the state after it. How an error of the release step combines with
  a pending one is not specified: the result keeps the error the flow has thrown when the
  release step is reached, the error of the release step, the steps called in order, and
  the final state.
\<close>

datatype step =
  AcquireLibraryLock | Authenticate | ValidateAccountTokens | EmitToken | ReleaseLibraryLock

definition TokenApp_run ::
  "('s \<Rightarrow> js_error option \<times> 's) \<Rightarrow> ('s \<Rightarrow> js_error option \<times> 's) \<Rightarrow> ('s \<Rightarrow> js_error option \<times> 's) \<Rightarrow>
   's \<Rightarrow> js_error option \<times> js_error option \<times> step list \<times> 's" where
  "TokenApp_run acquire authenticate_step release s0 =
     (let (acquired, s1) = acquire s0;
          (thrown, calls, s2) =
            (case acquired of
               Some err \<Rightarrow>
                 (Some (addCause err (ArchiveError ''Unable to get trust token'')),
                  [AcquireLibraryLock], s1)
             | None \<Rightarrow>
                 (let (authenticated, s') = authenticate_step s1 in
                  case authenticated of
                    Some err \<Rightarrow>
                      (Some (addCause err (iCloudError ''Unable to get trust token'')),
                       [AcquireLibraryLock, Authenticate], s')
                  | None \<Rightarrow>
                      (None, [AcquireLibraryLock, Authenticate, ValidateAccountTokens, EmitToken], s')));
          (released, s3) = release s2
      in (thrown, released, calls @ [ReleaseLibraryLock], s3))"

section \<open>Properties\<close>

lemma instanceof_iCPSError_iff:
  "instanceof_iCPSError v = (\<exists>c m s cs ctx. v = JErr (iCPSError c m s cs ctx))"
  by (cases v rule: instanceof_iCPSError.cases) auto

text \<open>
  C9. \<open>fatalError err\<close> is false exactly when \<open>err\<close> is an \<open>iCPSError\<close> whose severity is
  \<open>WARN\<close>; plain \<open>Error\<close> objects, strings, \<open>null\<close> and \<open>undefined\<close> are fatal.
\<close>

theorem fatalError_false_iff_warning:
  "(fatalError err = False) = (\<exists>c m cs ctx. err = JErr (iCPSError c m WARN cs ctx))
   \<and> fatalError (JErr (Error m r))
   \<and> fatalError (JStr str)
   \<and> fatalError JNull
   \<and> fatalError JUndefined"
  by (auto simp: fatalError_def instanceof_iCPSError_iff split: js_value.splits)

text \<open>
  C10. \<open>toiCPSError\<close> returns an \<open>iCPSError\<close> unchanged, hence is idempotent; a plain
  \<open>Error\<close> becomes the cause of a new FATAL "Unknown error"; any other value is stored in
  the context of that error under \<open>unknownErrorObject\<close>.
\<close>

theorem toiCPSError_idempotent:
  "toiCPSError (JErr (iCPSError c m s cs ctx)) = iCPSError c m s cs ctx
   \<and> toiCPSError (JErr (toiCPSError x)) = toiCPSError x
   \<and> toiCPSError (JErr (Error m' r)) =
       iCPSError C_iCPSError ''Unknown error'' FATAL (Some (Error m' r)) []
   \<and> (\<not> instanceof_Error x \<longrightarrow>
        toiCPSError x =
          iCPSError C_iCPSError ''Unknown error'' FATAL None [(''unknownErrorObject'', x)])"
proof -
  have unchanged: "toiCPSError (JErr (iCPSError c m s cs ctx)) = iCPSError c m s cs ctx"
    for c m s cs ctx
    by (simp add: toiCPSError_def)
  have is_icps: "\<exists>c m s cs ctx. toiCPSError x = iCPSError c m s cs ctx"
  proof (cases x)
    case (JErr e)
    then show ?thesis
      by (cases e) (simp_all add: toiCPSError_def new_iCPSError_def)
  qed (simp_all add: toiCPSError_def new_iCPSError_def)
  have idem: "toiCPSError (JErr (toiCPSError x)) = toiCPSError x"
    using is_icps unchanged by auto
  have plain: "toiCPSError (JErr (Error m' r)) =
      iCPSError C_iCPSError ''Unknown error'' FATAL (Some (Error m' r)) []"
    by (simp add: toiCPSError_def new_iCPSError_def)
  have other: "\<not> instanceof_Error x \<longrightarrow>
      toiCPSError x =
        iCPSError C_iCPSError ''Unknown error'' FATAL None [(''unknownErrorObject'', x)]"
    by (cases x) (simp_all add: toiCPSError_def new_iCPSError_def)
  from unchanged idem plain other show ?thesis by blast
qed

theorem toiCPSError_idempotent_witness:
  "toiCPSError (JErr (LibraryError ''locked'')) = LibraryError ''locked''
   \<and> toiCPSError (JErr (toiCPSError (JStr ''boom''))) = toiCPSError (JStr ''boom'')
   \<and> toiCPSError (JErr (Error ''reset'' None)) =
       iCPSError C_iCPSError ''Unknown error'' FATAL (Some (Error ''reset'' None)) []
   \<and> toiCPSError (JStr ''boom'') =
       iCPSError C_iCPSError ''Unknown error'' FATAL None [(''unknownErrorObject'', JStr ''boom'')]"
  using toiCPSError_idempotent [of C_LibraryError "''locked''" FATAL None "[]" "JStr ''boom''" "''reset''" None]
  by (simp add: LibraryError_def new_iCPSError_def toiCPSError_def)

text \<open>
  C5 as stated fails where crash reporting is not enabled: \<open>reportError\<close> returns before
  anything is sent when there is no \<open>btClient\<close>. A FATAL \<open>iCloudError\<close> handled by such a
  handler reaches no backend.
\<close>

theorem handle_report_without_client_counterexample:
  "sev (toiCPSError (JErr (iCloudError ''Setup failed''))) = Some FATAL
   \<and> \<not> instanceof_InterruptError (toiCPSError (JErr (iCloudError ''Setup failed'')))
   \<and> reports (handle ''0b7e'' (JErr (iCloudError ''Setup failed'')) (new_ErrorHandler False)) = []
   \<and> handler_emitted (handle ''0b7e'' (JErr (iCloudError ''Setup failed'')) (new_ErrorHandler False)) =
       [(ERROR_EVENT,
         ''iCloudError (FATAL): Setup failed (Error Code: No error code! Please enable crash reporting!)'')]"
  by (simp add: handle_def reportError_def reports_def shouldReport_def new_ErrorHandler_def
      toiCPSError_def iCloudError_def new_iCPSError_def Let_def)

text \<open>
  C5, amended. A crash report is sent exactly when the handler has a reporting client and
  the converted error is FATAL and not an \<open>InterruptError\<close>; then one report goes out, it
  carries the UUID, and the UUID is appended to the emitted message. Every call emits one
  event: \<open>warn\<close> for severity WARN, \<open>error\<close> otherwise.
\<close>

theorem handle_reports_iff_client_and_fatal:
  "(reports (handle uuid err h) \<noteq> reports h) =
     (btClient h \<noteq> None \<and> sev (toiCPSError err) = Some FATAL
      \<and> \<not> instanceof_InterruptError (toiCPSError err))
   \<and> (reports (handle uuid err h) \<noteq> reports h \<longrightarrow>
        (\<exists>report. reports (handle uuid err h) = reports h @ [report]
           \<and> icps_uuid report = uuid \<and> report_error report = toiCPSError err)
        \<and> handler_emitted (handle uuid err h) = handler_emitted h @
            [(ERROR_EVENT, getDescription (toiCPSError err) @ '' (Error Code: '' @ uuid @ '')'')])
   \<and> (\<exists>msg. handler_emitted (handle uuid err h) = handler_emitted h @
         [(if sev (toiCPSError err) = Some WARN then WARN_EVENT else ERROR_EVENT, msg)])"
proof -
  obtain c m s cs ctx where e: "toiCPSError err = iCPSError c m s cs ctx"
  proof (cases err)
    case (JErr x)
    then show ?thesis
      using that by (cases x) (simp_all add: toiCPSError_def new_iCPSError_def)
  qed (simp_all add: toiCPSError_def new_iCPSError_def)
  show ?thesis
  proof (cases "btClient h")
    case None
    then show ?thesis
      using e by (cases s) (simp_all add: handle_def reportError_def reports_def shouldReport_def Let_def)
  next
    case (Some client)
    then show ?thesis
      using e by (cases s) (simp_all add: handle_def reportError_def reports_def shouldReport_def Let_def)
  qed
qed

theorem handle_reports_iff_client_and_fatal_witness:
  "reports (handle ''0b7e'' (JErr (iCloudError ''Setup failed'')) (new_ErrorHandler True)) \<noteq>
     reports (new_ErrorHandler True)
   \<and> (\<exists>report. reports (handle ''0b7e'' (JErr (iCloudError ''Setup failed'')) (new_ErrorHandler True)) =
         reports (new_ErrorHandler True) @ [report]
         \<and> icps_uuid report = ''0b7e''
         \<and> report_error report = toiCPSError (JErr (iCloudError ''Setup failed'')))
   \<and> handler_emitted (handle ''0b7e'' (JErr (iCloudError ''Setup failed'')) (new_ErrorHandler True)) =
       [(ERROR_EVENT, ''iCloudError (FATAL): Setup failed (Error Code: 0b7e)'')]"
proof -
  have client: "btClient (new_ErrorHandler True) \<noteq> None"
    by (simp add: new_ErrorHandler_def)
  have fatal: "sev (toiCPSError (JErr (iCloudError ''Setup failed''))) = Some FATAL"
    by (simp add: toiCPSError_def iCloudError_def new_iCPSError_def)
  have no_interrupt: "\<not> instanceof_InterruptError (toiCPSError (JErr (iCloudError ''Setup failed'')))"
    by (simp add: toiCPSError_def iCloudError_def new_iCPSError_def)
  have descr: "getDescription (toiCPSError (JErr (iCloudError ''Setup failed''))) =
      ''iCloudError (FATAL): Setup failed''"
    by (simp add: toiCPSError_def iCloudError_def new_iCPSError_def)
  have emitted0: "handler_emitted (new_ErrorHandler True) = []"
    by (simp add: new_ErrorHandler_def)
  show ?thesis
    using handle_reports_iff_client_and_fatal
      [of "''0b7e''" "JErr (iCloudError ''Setup failed'')" "new_ErrorHandler True"]
      client fatal no_interrupt
    by (simp add: descr emitted0)
qed

text \<open>
  C1 at a 401 reply to the signin POST: axios rejects, the handler emits the
  bad-credentials error, falls through the 403 test, and since the status is not 409 emits
  the unexpected-HTTP-code error as well. Two fatal errors come out of one response.
\<close>

theorem authenticate_401_emits_two_errors:
  "emitted (snd (authenticate (\<lambda>a. None) (\<lambda>resp a. Inr a)
      (axios_request (Reply \<lparr>status = 401, headers = [], data = None\<rparr>))
      \<lparr>auth = (), mfaServer = \<lparr>port = 80, running = False\<rparr>, emitted = []\<rparr>)) =
   [(AUTHENTICATION_STARTED, []),
    (ERROR, [JErr (iCPSError C_iCloudError ''Username/Password does not seem to match'' FATAL
       (Some (Error ''Request failed with status code 401''
          (Some \<lparr>status = 401, headers = [], data = None\<rparr>))) [])]),
    (ERROR, [JErr (iCPSError C_iCloudError ''Unexpected HTTP code: 401'' FATAL
       (Some (Error ''Request failed with status code 401''
          (Some \<lparr>status = 401, headers = [], data = None\<rparr>))) [])])]"
  by (simp add: authenticate_def axios_request_def emit_def iCloudError_def new_iCPSError_def
      show_nat.simps digit_def Let_def)

text \<open>The same at a 403 reply.\<close>

lemma authenticate_403_emits_two_errors:
  "emitted (snd (authenticate (\<lambda>a. None) (\<lambda>resp a. Inr a)
      (axios_request (Reply \<lparr>status = 403, headers = [], data = None\<rparr>))
      \<lparr>auth = (), mfaServer = \<lparr>port = 80, running = False\<rparr>, emitted = []\<rparr>)) =
   [(AUTHENTICATION_STARTED, []),
    (ERROR, [JErr (iCPSError C_iCloudError ''Username does not seem to exist'' FATAL
       (Some (Error ''Request failed with status code 403''
          (Some \<lparr>status = 403, headers = [], data = None\<rparr>))) [])]),
    (ERROR, [JErr (iCPSError C_iCloudError ''Unexpected HTTP code: 403'' FATAL
       (Some (Error ''Request failed with status code 403''
          (Some \<lparr>status = 403, headers = [], data = None\<rparr>))) [])])]"
  by (simp add: authenticate_def axios_request_def emit_def iCloudError_def new_iCPSError_def
      show_nat.simps digit_def Let_def)

text \<open>
  For every other status one event follows \<open>AUTHENTICATION_STARTED\<close>: on 200 and 409 it is
  \<open>TRUSTED\<close> or \<open>MFA_REQUIRED\<close> when \<open>processAuthSecrets\<close> returns and the error it throws
  otherwise; on any other status it is the unexpected-HTTP-code error.
\<close>

lemma authenticate_one_event_unless_401_403:
  assumes "validateAccountSecrets (auth s) = None"
    and "status resp \<noteq> 401" and "status resp \<noteq> 403"
  shows "\<exists>ev. emitted (snd (authenticate validateAccountSecrets processAuthSecrets
            (axios_request (Reply resp)) s)) =
          emitted s @ [(AUTHENTICATION_STARTED, []), ev]
        \<and> (status resp = 200 \<longrightarrow>
             ev = (case processAuthSecrets resp (auth s) of
                     Inr a \<Rightarrow> (TRUSTED, []) | Inl err \<Rightarrow> (ERROR, [err])))
        \<and> (status resp = 409 \<longrightarrow>
             ev = (case processAuthSecrets resp (auth s) of
                     Inr a \<Rightarrow> (MFA_REQUIRED, [JNum (int (port (mfaServer s)))])
                   | Inl err \<Rightarrow> (ERROR, [err])))
        \<and> (status resp \<noteq> 200 \<and> status resp \<noteq> 409 \<longrightarrow>
             (\<exists>cs ctx. ev = (ERROR, [JErr (iCPSError C_iCloudError
                (''Unexpected HTTP code: '' @ show_nat (status resp)) FATAL cs ctx)])))"
  using assms
  by (auto simp: authenticate_def axios_request_def emit_def iCloudError_def new_iCPSError_def
      Let_def split: sum.splits)

text \<open>
  C3 as stated fails: \<open>submitMFA\<close> stops the server on every submit (\<open>stopServer\<close> is
  the first statement of its \<open>try\<close> block). With the server listening and the code refused
  (the POST is answered 400), the server is stopped all the same and the fatal error is
  emitted.
\<close>

theorem submitMFA_stops_server_on_failure_counterexample:
  "running (mfaServer \<lparr>auth = (), mfaServer = \<lparr>port = 80, running = True\<rparr>, emitted = []\<rparr>)
   \<and> \<not> running (mfaServer (submitMFA (\<lambda>m resp. status resp = 204)
         (axios_request (Reply \<lparr>status = 400, headers = [], data = None\<rparr>)) Device ''123456''
         \<lparr>auth = (), mfaServer = \<lparr>port = 80, running = True\<rparr>, emitted = []\<rparr>))
   \<and> map fst (emitted (submitMFA (\<lambda>m resp. status resp = 204)
         (axios_request (Reply \<lparr>status = 400, headers = [], data = None\<rparr>)) Device ''123456''
         \<lparr>auth = (), mfaServer = \<lparr>port = 80, running = True\<rparr>, emitted = []\<rparr>)) = [ERROR]"
  by (simp add: submitMFA_def submit_caught_def axios_request_def emit_def stopServer_def Let_def)

text \<open>
  C3, amended. After \<open>submitMFA\<close> has handled a submitted code the MFA server is stopped,
  whether the code was validated or not. An accepted code emits \<open>AUTHENTICATED\<close>; a failed
  submit (the POST rejects, or its response does not pass the method's validator) emits one
  \<open>iCloudError\<close> of severity FATAL on the error event, with the failure as its cause.
\<close>

theorem submitMFA_always_stops_server:
  "\<not> running (mfaServer (submitMFA enterSuccessful outcome method mfa s))
   \<and> emitted (submitMFA enterSuccessful outcome method mfa s) =
       emitted s @
         [case outcome of
            Rejected err \<Rightarrow>
              (ERROR, [JErr (iCPSError C_iCloudError ''Received error during MFA validation'' FATAL
                 (Some err) [])])
          | Resolved resp \<Rightarrow>
              if enterSuccessful method resp then (AUTHENTICATED, [])
              else (ERROR, [JErr (iCPSError C_iCloudError ''Received error during MFA validation'' FATAL
                      (Some (iCPSError C_iCloudError
                         (''Received unexpected response status code ('' @ show_nat (status resp) @
                          '') during MFA validation'') FATAL None [(''response'', JResponse resp)])) [])])]"
  by (cases outcome)
     (simp_all add: submitMFA_def submit_caught_def emit_def stopServer_def iCloudError_def
        new_iCPSError_def Let_def)

text \<open>
  C6. A failed resend (the PUT rejects, or its response does not pass the method's
  validator) emits one \<open>iCloudWarning\<close> of severity WARN on the handler event and nothing on
  the error event. A failed submit (the POST rejects, or its response does not pass the
  validator) emits one \<open>iCloudError\<close> of severity FATAL on the error event.
\<close>

theorem resend_failure_warns_submit_failure_is_fatal:
  "emitted (resendMFA resendSuccessful processResendError (Rejected err) method s) =
     emitted s @ [(HANDLER_EVENT, [JErr (iCPSError C_iCloudWarning ''Requesting MFA code failed'' WARN
        (Some (processResendError method err)) [])])]
   \<and> (\<not> resendSuccessful method resp \<longrightarrow>
        emitted (resendMFA resendSuccessful processResendError (Resolved resp) method s) =
          emitted s @ [(HANDLER_EVENT, [JErr (iCPSError C_iCloudWarning ''Unable to request new MFA code''
             WARN None [(''response'', JResponse resp)])])])
   \<and> emitted (submitMFA enterSuccessful (Rejected err) method mfa s) =
       emitted s @ [(ERROR, [JErr (iCPSError C_iCloudError ''Received error during MFA validation'' FATAL
          (Some err) [])])]
   \<and> (\<not> enterSuccessful method resp \<longrightarrow>
        emitted (submitMFA enterSuccessful (Resolved resp) method mfa s) =
          emitted s @ [(ERROR, [JErr (iCPSError C_iCloudError ''Received error during MFA validation'' FATAL
             (Some (iCPSError C_iCloudError
                (''Received unexpected response status code ('' @ show_nat (status resp) @
                 '') during MFA validation'') FATAL None [(''response'', JResponse resp)])) [])])])"
  by (simp add: resendMFA_def resend_caught_def submitMFA_def submit_caught_def emit_def
      iCloudWarning_def iCloudError_def new_iCPSError_def Let_def)

theorem resend_failure_warns_submit_failure_is_fatal_witness:
  "emitted (resendMFA (\<lambda>m r. status r = 202) (\<lambda>m e. e) (Rejected (Error ''timeout'' None)) Device
      \<lparr>auth = (), mfaServer = \<lparr>port = 80, running = True\<rparr>, emitted = []\<rparr>) =
     [(HANDLER_EVENT, [JErr (iCPSError C_iCloudWarning ''Requesting MFA code failed'' WARN
        (Some (Error ''timeout'' None)) [])])]
   \<and> emitted (resendMFA (\<lambda>m r. status r = 202) (\<lambda>m e. e)
        (Resolved \<lparr>status = 200, headers = [], data = None\<rparr>) Device
        \<lparr>auth = (), mfaServer = \<lparr>port = 80, running = True\<rparr>, emitted = []\<rparr>) =
       [(HANDLER_EVENT, [JErr (iCPSError C_iCloudWarning ''Unable to request new MFA code'' WARN None
          [(''response'', JResponse \<lparr>status = 200, headers = [], data = None\<rparr>)])])]
   \<and> emitted (submitMFA (\<lambda>m r. status r = 204) (Rejected (Error ''timeout'' None)) Device ''123456''
        \<lparr>auth = (), mfaServer = \<lparr>port = 80, running = True\<rparr>, emitted = []\<rparr>) =
       [(ERROR, [JErr (iCPSError C_iCloudError ''Received error during MFA validation'' FATAL
          (Some (Error ''timeout'' None)) [])])]
   \<and> emitted (submitMFA (\<lambda>m r. status r = 204)
        (Resolved \<lparr>status = 200, headers = [], data = None\<rparr>) Device ''123456''
        \<lparr>auth = (), mfaServer = \<lparr>port = 80, running = True\<rparr>, emitted = []\<rparr>) =
       [(ERROR, [JErr (iCPSError C_iCloudError ''Received error during MFA validation'' FATAL
          (Some (iCPSError C_iCloudError
             ''Received unexpected response status code (200) during MFA validation'' FATAL None
             [(''response'', JResponse \<lparr>status = 200, headers = [], data = None\<rparr>)])) [])])]"
  using resend_failure_warns_submit_failure_is_fatal
    [of "\<lambda>m r. status r = 202" "\<lambda>m e. e" "Error ''timeout'' None" Device
        "\<lparr>auth = (), mfaServer = \<lparr>port = 80, running = True\<rparr>, emitted = []\<rparr>"
        "\<lparr>status = 200, headers = [], data = None\<rparr>" "\<lambda>m r. status r = 204" "''123456''"]
  by (simp add: show_nat.simps digit_def)

text \<open>
  C8 where a flag stands in \<open>process.execArgv\<close>: the index found there is used to assign
  into \<open>process.argv\<close>. The password in \<open>execArgv\<close> stays readable, and the unrelated
  entry of \<open>argv\<close> at that index is overwritten by the placeholder.
\<close>

theorem cleanEnv_leaves_execArgv_value:
  "execArgv (cleanEnv \<lparr>env = Map.empty, argv = [Some ''node'', Some ''main.js'', Some ''sync''],
      execArgv = [Some ''--password'', Some ''hunter2'']\<rparr>) =
     [Some ''--password'', Some ''hunter2'']
   \<and> argv (cleanEnv \<lparr>env = Map.empty, argv = [Some ''node'', Some ''main.js'', Some ''sync''],
      execArgv = [Some ''--password'', Some ''hunter2'']\<rparr>) =
     [Some ''node'', Some ''<APPLE ID PASSWORD>'', Some ''sync'']"
  by (simp add: cleanEnv_def cleanEntry_def cleanCliValue_def cleanEnvVar_def confidentialData_def
      array_set_def)

text \<open>
  \<open>findIndex\<close> returns the first occurrence of a flag only: the value after a second
  occurrence stays in \<open>process.argv\<close>.
\<close>

lemma cleanEnv_repeated_flag:
  "argv (cleanEnv \<lparr>env = Map.empty,
      argv = [Some ''node'', Some ''main.js'', Some ''-p'', Some ''first'', Some ''-p'', Some ''hunter2''],
      execArgv = []\<rparr>) =
     [Some ''node'', Some ''main.js'', Some ''-p'', Some ''<APPLE ID PASSWORD>'', Some ''-p'',
      Some ''hunter2'']"
  by (simp add: cleanEnv_def cleanEntry_def cleanCliValue_def cleanEnvVar_def confidentialData_def
      array_set_def)

text \<open>The environment variables are scrubbed: a set, non-empty variable holds its placeholder.\<close>

lemma cleanEnv_env:
  "env (cleanEnv p) =
     (\<lambda>k. if k = ''APPLE_ID_USER'' \<and> env p k \<noteq> None \<and> env p k \<noteq> Some [] then Some ''<APPLE ID USERNAME>''
          else if k = ''APPLE_ID_PWD'' \<and> env p k \<noteq> None \<and> env p k \<noteq> Some [] then Some ''<APPLE ID PASSWORD>''
          else if k = ''TRUST_TOKEN'' \<and> env p k \<noteq> None \<and> env p k \<noteq> Some [] then Some ''<TRUST TOKEN>''
          else env p k)"
proof -
  have cli_env: "env (cleanCliValue e flag q) = env q" for e flag q
    by (simp add: cleanCliValue_def Let_def split: option.splits)
  have entry_env: "env (cleanEntry e q) = env (cleanEnvVar e q)" if "length (cli e) = 2" for e q
  proof -
    from that obtain a b where "cli e = [a, b]"
      by (cases "cli e"; cases "tl (cli e)") auto
    then show ?thesis
      by (simp add: cleanEntry_def cli_env)
  qed
  have var: "env (cleanEnvVar e q) =
      (\<lambda>k. if k = entry_env e \<and> env q k \<noteq> None \<and> env q k \<noteq> Some [] then Some (replacement e)
           else env q k)" for e q
    by (auto simp: cleanEnvVar_def fun_eq_iff split: option.splits)
  show ?thesis
    by (auto simp: cleanEnv_def confidentialData_def entry_env var fun_eq_iff)
qed

text \<open>The decimal rendering is injective: two process ids print alike only when equal.\<close>

lemma digit_inj: "a < 10 \<Longrightarrow> b < 10 \<Longrightarrow> digit a = digit b \<Longrightarrow> a = b"
proof -
  assume a: "a < 10" and b: "b < 10" and eq: "digit a = digit b"
  have d: "distinct ''0123456789''" by simp
  have "''0123456789'' ! a = ''0123456789'' ! b"
    using eq a b by (simp add: digit_def)
  then show "a = b"
    using d a b by (simp add: nth_eq_iff_index_eq)
qed

lemma show_nat_nonempty: "show_nat n \<noteq> []"
  by (subst show_nat.simps) simp

lemma show_nat_inj: "show_nat n = show_nat m \<Longrightarrow> n = m"
proof (induction n arbitrary: m rule: show_nat.induct)
  case (1 n)
  show ?case
  proof (cases "n < 10")
    case small_n: True
    show ?thesis
    proof (cases "m < 10")
      case True
      then show ?thesis
        using "1.prems" small_n digit_inj [of n m]
        by (simp add: show_nat.simps [of n] show_nat.simps [of m])
    next
      case False
      then show ?thesis
        using "1.prems" small_n show_nat_nonempty [of "m div 10"]
        by (simp add: show_nat.simps [of n] show_nat.simps [of m])
    qed
  next
    case big_n: False
    show ?thesis
    proof (cases "m < 10")
      case True
      then show ?thesis
        using "1.prems" big_n show_nat_nonempty [of "n div 10"]
        by (simp add: show_nat.simps [of n] show_nat.simps [of m])
    next
      case False
      with "1.prems" big_n
      have eq: "show_nat (n div 10) = show_nat (m div 10)" "digit (n mod 10) = digit (m mod 10)"
        by (simp_all add: show_nat.simps [of n] show_nat.simps [of m])
      from "1.IH" [OF big_n eq(1)] have "n div 10 = m div 10" .
      moreover from eq(2) have "n mod 10 = m mod 10"
        using digit_inj [of "n mod 10" "m mod 10"] by simp
      ultimately show ?thesis
        by (metis div_mult_mod_eq)
    qed
  qed
qed


text \<open>
  C2. Acquiring the lock: with no lock file, the file is created with this process' id;
  with a lock file that holds another id and without \<open>force\<close>, the call fails with the
  \<open>LibraryError\<close> that names the locking id and the directory is unchanged; with \<open>force\<close>,
  the file holds this process' id afterwards.
\<close>

theorem acquireLibraryLock_cases:
  "(dir LIBRARY_LOCK_FILE = None \<longrightarrow>
      acquireLibraryLock pid force dir = (None, dir(LIBRARY_LOCK_FILE \<mapsto> show_nat pid)))
   \<and> (dir LIBRARY_LOCK_FILE = Some lockingProcess \<and> lockingProcess \<noteq> show_nat pid \<and> \<not> force \<longrightarrow>
      acquireLibraryLock pid force dir =
        (Some (LibraryError (''Locked by PID '' @ lockingProcess @
           ''. Use --force (or FORCE env variable) to forcefully remove the lock'')), dir))
   \<and> (dir LIBRARY_LOCK_FILE = Some (show_nat other) \<and> other \<noteq> pid \<and> \<not> force \<longrightarrow>
      acquireLibraryLock pid force dir =
        (Some (LibraryError (''Locked by PID '' @ show_nat other @
           ''. Use --force (or FORCE env variable) to forcefully remove the lock'')), dir))
   \<and> (force \<longrightarrow>
      acquireLibraryLock pid force dir = (None, dir(LIBRARY_LOCK_FILE \<mapsto> show_nat pid)))"
proof -
  have "show_nat other \<noteq> show_nat pid" if "other \<noteq> pid"
    using that show_nat_inj by blast
  then show ?thesis
    by (simp add: acquireLibraryLock_def split: option.splits)
qed

theorem acquireLibraryLock_cases_witness:
  "acquireLibraryLock 4242 False Map.empty = (None, [LIBRARY_LOCK_FILE \<mapsto> ''4242''])
   \<and> acquireLibraryLock 4242 False [LIBRARY_LOCK_FILE \<mapsto> ''4243''] =
       (Some (LibraryError
          ''Locked by PID 4243. Use --force (or FORCE env variable) to forcefully remove the lock''),
        [LIBRARY_LOCK_FILE \<mapsto> ''4243''])
   \<and> acquireLibraryLock 4242 True [LIBRARY_LOCK_FILE \<mapsto> ''4243''] =
       (None, [LIBRARY_LOCK_FILE \<mapsto> ''4242''])"
proof -
  have pid: "show_nat 4242 = ''4242''"
    by (simp add: show_nat.simps digit_def)
  show ?thesis
    using acquireLibraryLock_cases [of Map.empty 4242 False "''4243''" 4243]
      acquireLibraryLock_cases [of "[LIBRARY_LOCK_FILE \<mapsto> ''4243'']" 4242 False "''4243''" 4243]
      acquireLibraryLock_cases [of "[LIBRARY_LOCK_FILE \<mapsto> ''4243'']" 4242 True "''4243''" 4243]
    by (simp add: pid)
qed

text \<open>
  C7. Releasing the lock: with a lock file that holds another id and without \<open>force\<close>,
  the call fails with a \<open>LibraryError\<close> and the file stays; with \<open>force\<close> (or with this
  process' own id) the file is unlinked; with no lock file the call fails with the no-lock
  \<open>LibraryError\<close>, which differs from the former.
\<close>

theorem releaseLibraryLock_cases:
  "(dir LIBRARY_LOCK_FILE = Some lockingProcess \<and> lockingProcess \<noteq> show_nat pid \<and> \<not> force \<longrightarrow>
      releaseLibraryLock pid force dir =
        (Some (LibraryError (''Locked by PID '' @ lockingProcess @
           '', cannot release. Use --force (or FORCE env variable) to forcefully remove the lock'')),
         dir))
   \<and> (dir LIBRARY_LOCK_FILE = Some (show_nat other) \<and> other \<noteq> pid \<and> \<not> force \<longrightarrow>
      releaseLibraryLock pid force dir =
        (Some (LibraryError (''Locked by PID '' @ show_nat other @
           '', cannot release. Use --force (or FORCE env variable) to forcefully remove the lock'')),
         dir))
   \<and> (dir LIBRARY_LOCK_FILE = Some lockingProcess \<and> (force \<or> lockingProcess = show_nat pid) \<longrightarrow>
      releaseLibraryLock pid force dir = (None, dir(LIBRARY_LOCK_FILE := None)))
   \<and> (dir LIBRARY_LOCK_FILE = None \<longrightarrow>
      releaseLibraryLock pid force dir =
        (Some (LibraryError ''Unable to release library lock, no lock exists''), dir))
   \<and> LibraryError ''Unable to release library lock, no lock exists'' \<noteq>
       LibraryError (''Locked by PID '' @ lockingProcess @
         '', cannot release. Use --force (or FORCE env variable) to forcefully remove the lock'')"
proof -
  have "show_nat other \<noteq> show_nat pid" if "other \<noteq> pid"
    using that show_nat_inj by blast
  then show ?thesis
    by (auto simp: releaseLibraryLock_def LibraryError_def new_iCPSError_def)
qed

theorem releaseLibraryLock_cases_witness:
  "releaseLibraryLock 4242 False [LIBRARY_LOCK_FILE \<mapsto> ''4243''] =
     (Some (LibraryError
        ''Locked by PID 4243, cannot release. Use --force (or FORCE env variable) to forcefully remove the lock''),
      [LIBRARY_LOCK_FILE \<mapsto> ''4243''])
   \<and> releaseLibraryLock 4242 True [LIBRARY_LOCK_FILE \<mapsto> ''4243''] = (None, Map.empty)
   \<and> releaseLibraryLock 4242 False [LIBRARY_LOCK_FILE \<mapsto> ''4242''] = (None, Map.empty)
   \<and> releaseLibraryLock 4242 False Map.empty =
       (Some (LibraryError ''Unable to release library lock, no lock exists''), Map.empty)"
proof -
  have pid: "show_nat 4242 = ''4242''"
    by (simp add: show_nat.simps digit_def)
  show ?thesis
    using releaseLibraryLock_cases [of "[LIBRARY_LOCK_FILE \<mapsto> ''4243'']" "''4243''" 4242 False 4243]
      releaseLibraryLock_cases [of "[LIBRARY_LOCK_FILE \<mapsto> ''4243'']" "''4243''" 4242 True 4243]
      releaseLibraryLock_cases [of "[LIBRARY_LOCK_FILE \<mapsto> ''4242'']" "''4242''" 4242 False 4243]
      releaseLibraryLock_cases [of Map.empty "''4243''" 4242 False 4243]
    by (simp add: pid)
qed


text \<open>
  Whatever the steps are: when the lock step fails, the flow throws the \<open>ArchiveError\<close> with
  the failure as its cause, does not authenticate, and calls the release step.
\<close>

lemma TokenApp_run_lock_failure_steps:
  assumes "fst (acquire s) = Some err"
  shows "fst (TokenApp_run acquire authenticate_step release s) =
           Some (iCPSError C_ArchiveError ''Unable to get trust token'' FATAL (Some err) [])
         \<and> fst (snd (snd (TokenApp_run acquire authenticate_step release s))) =
             [AcquireLibraryLock, ReleaseLibraryLock]"
proof -
  obtain s1 where acq: "acquire s = (Some err, s1)"
    using assms by (cases "acquire s") auto
  obtain released s3 where rel: "release s1 = (released, s3)"
    by (cases "release s1") auto
  show ?thesis
    using acq rel by (simp add: TokenApp_run_def ArchiveError_def new_iCPSError_def)
qed

text \<open>
  With the lock functions above as the steps and the directory locked by another process:
  the flow throws the \<open>ArchiveError\<close> whose cause is the \<open>LibraryError\<close> of the lock, and
  the release step fails with its own \<open>LibraryError\<close>, leaving the lock in place.
\<close>

lemma TokenApp_run_locked_directory:
  "TokenApp_run (acquireLibraryLock 4242 False) (\<lambda>dir. (None, dir)) (releaseLibraryLock 4242 False)
      [LIBRARY_LOCK_FILE \<mapsto> ''4243''] =
     (Some (iCPSError C_ArchiveError ''Unable to get trust token'' FATAL
        (Some (LibraryError
           ''Locked by PID 4243. Use --force (or FORCE env variable) to forcefully remove the lock'')) []),
      Some (LibraryError
        ''Locked by PID 4243, cannot release. Use --force (or FORCE env variable) to forcefully remove the lock''),
      [AcquireLibraryLock, ReleaseLibraryLock],
      [LIBRARY_LOCK_FILE \<mapsto> ''4243''])"
proof -
  have pid: "show_nat 4242 = ''4242''"
    by (simp add: show_nat.simps digit_def)
  show ?thesis
    by (simp add: TokenApp_run_def acquireLibraryLock_def releaseLibraryLock_def pid
        ArchiveError_def new_iCPSError_def)
qed

end
